theory Spec2Isabelle
  imports Main "HOL-Library.AList"
begin

section \<open>Strings\<close>

text \<open>
  Strings are lists of 8-bit characters. \<open>toLowerCase\<close> maps the letters \<open>A\<close> to \<open>Z\<close>
  of US-ASCII to \<open>a\<close> to \<open>z\<close> and leaves every other character as it is. The server
  uses it in two places: the spelling of the hexadecimal digits of an object
  identifier (\<^verbatim>\<open>toHexString\<close>), and the letter case that a pattern compiled with
  \<^verbatim>\<open>Pattern.CASE_INSENSITIVE\<close> ignores (without \<^verbatim>\<open>UNICODE_CASE\<close>, that of US-ASCII
  only).

  It is not JavaScript's \<^verbatim>\<open>String.prototype.toLowerCase\<close>, which maps every cased
  letter of Unicode. The client's functions take that function as their parameter
  \<open>lower\<close>, and nothing is assumed about it. On strings of ASCII characters the two
  agree, so the examples on the sample data call the client's functions with
  \<open>toLowerCase\<close> for \<open>lower\<close>.
\<close>

definition toLowerChar :: "char \<Rightarrow> char" where
  \<comment> \<open>\<open>A\<close> to \<open>Z\<close> are the codes 65 to 90; adding 32 sets the bit of weight 32.\<close>
  "toLowerChar c =
     (if 65 \<le> (of_char c :: nat) \<and> (of_char c :: nat) \<le> 90
      then (case c of Char b0 b1 b2 b3 b4 b5 b6 b7 \<Rightarrow> Char b0 b1 b2 b3 b4 True b6 b7)
      else c)"

definition toLowerCase :: "string \<Rightarrow> string" where
  "toLowerCase s = map toLowerChar s"

fun startsWith :: "string \<Rightarrow> string \<Rightarrow> bool" where
  "startsWith s [] = True"
| "startsWith [] (p # ps) = False"
| "startsWith (c # cs) (p # ps) = (c = p \<and> startsWith cs ps)"

text \<open>
  \<^verbatim>\<open>s.indexOf(p)\<close>: the index of the first occurrence of \<open>p\<close> in \<open>s\<close>, or \<open>-1\<close>.
\<close>

fun indexOfFrom :: "string \<Rightarrow> string \<Rightarrow> int \<Rightarrow> int" where
  "indexOfFrom [] p i = (if p = [] then i else - 1)"
| "indexOfFrom (c # cs) p i =
     (if startsWith (c # cs) p then i else indexOfFrom cs p (i + 1))"

definition indexOf :: "string \<Rightarrow> string \<Rightarrow> int" where
  "indexOf s p = indexOfFrom s p 0"

section \<open>The client: \<^verbatim>\<open>TodoService.filterTodos\<close> (todo.service.ts)\<close>

text \<open>
  TypeScript's types are erased at run time, so a todo and the \<^verbatim>\<open>filters\<close> argument
  are JavaScript objects: ordered lists of keys with values. Reading a key that an
  object does not have gives \<^verbatim>\<open>undefined\<close>.
\<close>

datatype jsval = JUndefined | JString string | JBoolean bool | JNumber int

type_synonym jsobj = "(string \<times> jsval) list"

datatype js_error = TypeError

definition get_prop :: "jsobj \<Rightarrow> string \<Rightarrow> jsval" where
  "get_prop obj k = (case map_of obj k of None \<Rightarrow> JUndefined | Some v \<Rightarrow> v)"

fun truthy :: "jsval \<Rightarrow> bool" where
  "truthy JUndefined = False"
| "truthy (JString s) = (s \<noteq> [])"
| "truthy (JBoolean b) = b"
| "truthy (JNumber n) = (n \<noteq> 0)"

text \<open>
  Arrays and objects are passed by reference, and \<^verbatim>\<open>filterTodos\<close> assigns to keys of
  its \<^verbatim>\<open>filters\<close> argument, so both live in a heap: an address is an index, and
  allocation appends. The todos inside an array are kept as values, since the
  function only reads them.
\<close>

record heap =
  arrays :: "jsobj list list"
  objects :: "jsobj list"

definition array_at :: "heap \<Rightarrow> nat \<Rightarrow> jsobj list option" where
  "array_at h a = (if a < length (arrays h) then Some (arrays h ! a) else None)"

definition object_at :: "heap \<Rightarrow> nat \<Rightarrow> jsobj option" where
  "object_at h a = (if a < length (objects h) then Some (objects h ! a) else None)"

definition alloc_array :: "jsobj list \<Rightarrow> heap \<Rightarrow> nat \<times> heap" where
  "alloc_array xs h = (length (arrays h), h\<lparr>arrays := arrays h @ [xs]\<rparr>)"

definition set_prop :: "heap \<Rightarrow> nat \<Rightarrow> string \<Rightarrow> jsval \<Rightarrow> heap" where
  "set_prop h a k v = h\<lparr>objects := (objects h)[a := AList.update k v (objects h ! a)]\<rparr>"

text \<open>
  \<^verbatim>\<open>Array.prototype.filter\<close> with a callback that may throw: the first exception
  ends the call.
\<close>

fun array_filter :: "('a \<Rightarrow> js_error + bool) \<Rightarrow> 'a list \<Rightarrow> js_error + 'a list" where
  "array_filter p [] = Inr []"
| "array_filter p (x # xs) =
     (case p x of
        Inl e \<Rightarrow> Inl e
      | Inr b \<Rightarrow>
          (case array_filter p xs of
             Inl e \<Rightarrow> Inl e
           | Inr ys \<Rightarrow> Inr (if b then x # ys else ys)))"

text \<open>
  The callback \<^verbatim>\<open>todo => todo.name.toLowerCase().indexOf(filters.name) !== -1\<close>, for
  the key \<open>key\<close>; \<open>needle\<close> is the value of \<^verbatim>\<open>filters[key]\<close> and \<open>lower\<close> is
  \<^verbatim>\<open>String.prototype.toLowerCase\<close>. Calling \<^verbatim>\<open>toLowerCase\<close> on anything but a string
  throws a \<^verbatim>\<open>TypeError\<close>.
\<close>

definition key_contains ::
  "(string \<Rightarrow> string) \<Rightarrow> string \<Rightarrow> string \<Rightarrow> jsobj \<Rightarrow> js_error + bool" where
  "key_contains lower key needle todo =
     (case get_prop todo key of
        JString t \<Rightarrow> Inr (indexOf (lower t) needle \<noteq> - 1)
      | _ \<Rightarrow> Inl TypeError)"

text \<open>
  One block of \<^verbatim>\<open>filterTodos\<close>:
  \<^verbatim>\<open>if (filters.name) { filters.name = filters.name.toLowerCase();
       filteredTodos = filteredTodos.filter(...); }\<close>
  It returns the new value of the local variable \<^verbatim>\<open>filteredTodos\<close> and the heap.
\<close>

definition filterBy ::
  "(string \<Rightarrow> string) \<Rightarrow> string \<Rightarrow> nat \<Rightarrow> nat \<Rightarrow> heap \<Rightarrow> (js_error + nat) \<times> heap" where
  "filterBy lower key filteredTodos filters h =
     (case object_at h filters of
        None \<Rightarrow> (Inl TypeError, h)
      | Some fs \<Rightarrow>
          if truthy (get_prop fs key) then
            (case get_prop fs key of
               JString v \<Rightarrow>
                 (let h1 = set_prop h filters key (JString (lower v)) in
                  case array_at h1 filteredTodos of
                    None \<Rightarrow> (Inl TypeError, h1)
                  | Some xs \<Rightarrow>
                      (case array_filter (key_contains lower key (lower v)) xs of
                         Inl e \<Rightarrow> (Inl e, h1)
                       | Inr ys \<Rightarrow> (case alloc_array ys h1 of (r, h2) \<Rightarrow> (Inr r, h2))))
             | _ \<Rightarrow> (Inl TypeError, h))
          else (Inr filteredTodos, h))"

text \<open>
  \<^verbatim>\<open>filterTodos(todos, filters)\<close>: the block for \<^verbatim>\<open>name\<close>, then the block for
  \<^verbatim>\<open>company\<close>; these are the only two keys of \<^verbatim>\<open>filters\<close> the function reads.
\<close>

definition filterTodos ::
  "(string \<Rightarrow> string) \<Rightarrow> nat \<Rightarrow> nat \<Rightarrow> heap \<Rightarrow> (js_error + nat) \<times> heap" where
  "filterTodos lower todos filters h =
     (case filterBy lower ''name'' todos filters h of
        (Inl e, h1) \<Rightarrow> (Inl e, h1)
      | (Inr filteredTodos, h1) \<Rightarrow> filterBy lower ''company'' filteredTodos filters h1)"

text \<open>
  A call of \<^verbatim>\<open>filterTodos\<close> on a heap that holds just the two arguments, with the
  array it returns read back from the heap.
\<close>

definition heap_of :: "jsobj list \<Rightarrow> jsobj \<Rightarrow> heap" where
  "heap_of todos filters = \<lparr>arrays = [todos], objects = [filters]\<rparr>"

definition run_filterTodos ::
  "(string \<Rightarrow> string) \<Rightarrow> jsobj list \<Rightarrow> jsobj \<Rightarrow> js_error + jsobj list" where
  "run_filterTodos lower todos filters =
     (case filterTodos lower 0 0 (heap_of todos filters) of
        (Inl e, h) \<Rightarrow> Inl e
      | (Inr r, h) \<Rightarrow> (case array_at h r of None \<Rightarrow> Inl TypeError | Some xs \<Rightarrow> Inr xs))"

text \<open>The three sample todos of the client's tests (todo.service.spec.ts).\<close>

definition testTodos :: "jsobj list" where
  "testTodos =
     [[(''_id'', JString ''chris_id''), (''owner'', JString ''Chris''),
       (''status'', JBoolean False), (''body'', JString ''UMM is cool''),
       (''category'', JString ''software design'')],
      [(''_id'', JString ''pat_id''), (''owner'', JString ''Pat''),
       (''status'', JBoolean True), (''body'', JString ''IBM is not cool''),
       (''category'', JString ''homework'')],
      [(''_id'', JString ''jamie_id''), (''owner'', JString ''Jamie''),
       (''status'', JBoolean False), (''body'', JString ''Frogs, are cool''),
       (''category'', JString ''groceries'')]]"

text \<open>
  The keys of the \<^verbatim>\<open>filters\<close> object that the caller of \<^verbatim>\<open>filterTodos\<close> builds
  (\<^verbatim>\<open>TodoListComponent.updateFilter\<close>).
\<close>

definition caller_keys :: "string list" where
  "caller_keys = [''owner'', ''status'', ''body'', ''category'', ''limit'', ''order'']"

section \<open>The client: the body control of \<^verbatim>\<open>addTodoForm\<close> (add-todo.component.ts)\<close>

text \<open>
  The validators composed on the \<^verbatim>\<open>body\<close> control, with the error keys they
  report: \<^verbatim>\<open>Validators.required\<close>, \<^verbatim>\<open>Validators.minLength(2)\<close> (which reports
  nothing on an empty value), \<^verbatim>\<open>Validators.maxLength(300)\<close> and the custom
  validator that refuses \<^verbatim>\<open>abc123\<close> and \<^verbatim>\<open>123abc\<close> in any letter case
  (\<^verbatim>\<open>fc.value.toLowerCase()\<close>, the parameter \<open>lower\<close>). The control is valid when no
  validator reports an error.
\<close>

definition body_errors :: "(string \<Rightarrow> string) \<Rightarrow> string \<Rightarrow> string list" where
  "body_errors lower v =
     (if v = [] then [''required''] else []) @
     (if v \<noteq> [] \<and> length v < 2 then [''minlength''] else []) @
     (if length v > 300 then [''maxlength''] else []) @
     (if lower v = ''abc123'' \<or> lower v = ''123abc''
      then [''existingName''] else [])"

definition body_valid :: "(string \<Rightarrow> string) \<Rightarrow> string \<Rightarrow> bool" where
  "body_valid lower v = (body_errors lower v = [])"

section \<open>The server: \<^verbatim>\<open>TodoController\<close>\<close>

subsection \<open>Data\<close>

text \<open>
  Modelled from the spec: the class \<^verbatim>\<open>Todo\<close> (Todo.java) is not among the sources.
  Its fields are those of the spec's record, at the types the controller uses
  them with; \<open>ident\<close> is the field \<^verbatim>\<open>_id\<close>. The reference-typed fields may be
  \<^verbatim>\<open>null\<close> (\<open>None\<close>); \<^verbatim>\<open>status\<close> is the boolean that the check
  \<^verbatim>\<open>tdo -> tdo.status\<close> reads.
\<close>

record Todo =
  ident :: "string option"
  owner :: "string option"
  status :: bool
  body :: "string option"
  category :: "string option"

datatype exn =
    BadRequestResponse string
  | NotFoundResponse string
  | ValidationException string
  | IllegalArgumentException
  | NullPointerException

datatype HttpStatus = OK | CREATED | NOT_FOUND

datatype json = JsonTodo Todo | JsonId string

text \<open>
  What a handler reads from the Javalin context: the map of the query parameters
  (each key with the list of its values) and the path parameters.
\<close>

record Context =
  queryParamMap :: "string \<rightharpoonup> string list"
  pathParamMap :: "string \<rightharpoonup> string"

text \<open>\<^verbatim>\<open>ctx.queryParam(key)\<close>: the first value of the key, \<^verbatim>\<open>null\<close> when there is none.\<close>

definition queryParam :: "Context \<Rightarrow> string \<Rightarrow> string option" where
  "queryParam ctx key =
     (case queryParamMap ctx key of
        None \<Rightarrow> None
      | Some [] \<Rightarrow> None
      | Some (v # vs) \<Rightarrow> Some v)"

definition pathParam :: "Context \<Rightarrow> string \<Rightarrow> string option" where
  "pathParam ctx key = pathParamMap ctx key"

text \<open>
  What a handler changes: the collection, and the response it sets with
  \<^verbatim>\<open>ctx.json\<close> and \<^verbatim>\<open>ctx.status\<close>.
\<close>

record server =
  todoCollection :: "Todo list"
  res_json :: "json option"
  res_status :: "HttpStatus option"

definition OWNER_KEY :: string where "OWNER_KEY = ''owner''"

subsection \<open>Object identifiers\<close>

text \<open>
  An \<^verbatim>\<open>ObjectId\<close> is twelve bytes, written as 24 hexadecimal digits. It is
  represented here by its lower-case hexadecimal string (\<^verbatim>\<open>toHexString\<close>), so that
  two strings that differ only in the case of their digits give the same
  identifier. The constructor throws \<^verbatim>\<open>IllegalArgumentException\<close> on \<^verbatim>\<open>null\<close> and on
  every string that is not 24 hexadecimal digits.
\<close>

type_synonym ObjectId = string

definition isHexDigit :: "char \<Rightarrow> bool" where
  "isHexDigit c = (c \<in> set ''0123456789abcdefABCDEF'')"

definition ObjectId_isValid :: "string \<Rightarrow> bool" where
  "ObjectId_isValid hexString = (length hexString = 24 \<and> list_all isHexDigit hexString)"

definition new_ObjectId :: "string option \<Rightarrow> exn + ObjectId" where
  "new_ObjectId hexString =
     (case hexString of
        None \<Rightarrow> Inl IllegalArgumentException
      | Some s \<Rightarrow>
          if ObjectId_isValid s then Inr (toLowerCase s) else Inl IllegalArgumentException)"

subsection \<open>\<^verbatim>\<open>getTodo\<close>\<close>

text \<open>\<^verbatim>\<open>todoCollection.find(eq("_id", oid)).first()\<close>; \<open>None\<close> is \<^verbatim>\<open>null\<close>.\<close>

definition find_first :: "ObjectId \<Rightarrow> Todo list \<Rightarrow> Todo option" where
  "find_first oid coll = List.find (\<lambda>t. ident t = Some oid) coll"

definition getTodo :: "Context \<Rightarrow> server \<Rightarrow> (exn + unit) \<times> server" where
  "getTodo ctx s =
     (case new_ObjectId (pathParam ctx ''id'') of
        Inl e \<Rightarrow>
          (Inl (BadRequestResponse ''The requested todo id wasn't a legal Mongo Object ID.''), s)
      | Inr oid \<Rightarrow>
          (case find_first oid (todoCollection s) of
             None \<Rightarrow> (Inl (NotFoundResponse ''The requested todo was not found''), s)
           | Some todo \<Rightarrow>
               (Inr (), s\<lparr>res_json := Some (JsonTodo todo), res_status := Some OK\<rparr>)))"

subsection \<open>\<^verbatim>\<open>deleteTodo\<close>\<close>

text \<open>\<^verbatim>\<open>deleteOne\<close> removes the first matching document and counts what it removed.\<close>

fun deleteOne :: "ObjectId \<Rightarrow> Todo list \<Rightarrow> nat \<times> Todo list" where
  "deleteOne oid [] = (0, [])"
| "deleteOne oid (t # ts) =
     (if ident t = Some oid then (1, ts)
      else (case deleteOne oid ts of (n, ts') \<Rightarrow> (n, t # ts')))"

text \<open>A string in a Java concatenation: \<^verbatim>\<open>null\<close> is written \<^verbatim>\<open>null\<close>.\<close>

definition string_valueOf :: "string option \<Rightarrow> string" where
  "string_valueOf x = (case x of None \<Rightarrow> ''null'' | Some v \<Rightarrow> v)"

text \<open>
  In \<^verbatim>\<open>deleteTodo\<close> the construction of the \<^verbatim>\<open>ObjectId\<close> is outside any
  \<^verbatim>\<open>try\<close>: its exception leaves the handler as it is.
\<close>

definition deleteTodo :: "Context \<Rightarrow> server \<Rightarrow> (exn + unit) \<times> server" where
  "deleteTodo ctx s =
     (case new_ObjectId (pathParam ctx ''id'') of
        Inl e \<Rightarrow> (Inl e, s)
      | Inr oid \<Rightarrow>
          (case deleteOne oid (todoCollection s) of
             (deletedCount, coll) \<Rightarrow>
               if deletedCount \<noteq> 1 then
                 (Inl (NotFoundResponse
                    (''Was unable to delete ID '' @ string_valueOf (pathParam ctx ''id'') @
                     ''; perhaps illegal ID or an ID for an item not in the system?'')),
                  s\<lparr>todoCollection := coll, res_status := Some NOT_FOUND\<rparr>)
               else (Inr (), s\<lparr>todoCollection := coll, res_status := Some OK\<rparr>)))"

subsection \<open>\<^verbatim>\<open>constructFilter\<close>\<close>







text \<open>
  How the store reads such a filter on a document. A document maps field names to
  values; a regular expression matches a field only when the field holds a string
  and the expression is found somewhere in it (it is not anchored), letter case
  being ignored under \<^verbatim>\<open>CASE_INSENSITIVE\<close>. The empty document matches everything.
\<close>

datatype bson_value = BString string | BBoolean bool | BObjectId ObjectId | BNull





subsection \<open>\<^verbatim>\<open>constructSortingOrder\<close>\<close>

datatype Sort = ascending string | descending string

definition requireNonNullElse :: "'a option \<Rightarrow> 'a \<Rightarrow> 'a" where
  "requireNonNullElse obj defaultObj = (case obj of None \<Rightarrow> defaultObj | Some v \<Rightarrow> v)"

definition constructSortingOrder :: "Context \<Rightarrow> Sort" where
  "constructSortingOrder ctx =
     (let sortBy = requireNonNullElse (queryParam ctx ''sortby'') ''name'';
          sortOrder = requireNonNullElse (queryParam ctx ''sortorder'') ''asc''
      in if sortOrder = ''desc'' then descending sortBy else ascending sortBy)"

subsection \<open>\<^verbatim>\<open>addNewTodo\<close>\<close>

text \<open>
  \<^verbatim>\<open>CAT_REGEX\<close> is \<^verbatim>\<open>^(groceries|homework|software design|video games)$\<close>;
  \<^verbatim>\<open>String.matches\<close> holds exactly for its four alternatives.
\<close>

definition CAT_REGEX :: "string list" where
  "CAT_REGEX = [''groceries'', ''homework'', ''software design'', ''video games'']"

text \<open>The four checks of the validator, in the order of the source, with their messages.\<close>

definition check_body :: "Todo \<Rightarrow> exn + bool" where
  "check_body tdo = Inr (case body tdo of None \<Rightarrow> False | Some b \<Rightarrow> length b > 0)"

definition check_owner :: "Todo \<Rightarrow> exn + bool" where
  "check_owner tdo = Inr (case owner tdo of None \<Rightarrow> False | Some ow \<Rightarrow> length ow > 0)"

definition check_status :: "Todo \<Rightarrow> exn + bool" where
  "check_status tdo = Inr (status tdo)"

definition check_category :: "Todo \<Rightarrow> exn + bool" where
  "check_category tdo =
     (case category tdo of
        None \<Rightarrow> Inl NullPointerException
      | Some c \<Rightarrow> Inr (c \<in> set CAT_REGEX))"

definition todo_checks :: "((Todo \<Rightarrow> exn + bool) \<times> string) list" where
  "todo_checks =
     [(check_body, ''Todo must have a non-empty body''),
      (check_owner, ''Todo must have a non-empty owner''),
      (check_status, ''Todo must have a non-empty status''),
      (check_category, ''Todo must have a legal user role'')]"

text \<open>
  Modelled from the spec: the body validator of the web framework
  (\<^verbatim>\<open>ctx.bodyValidator(Todo.class) ... .get()\<close>) is not part of the repository. It
  runs the checks in the order they were added and fails with a
  \<^verbatim>\<open>ValidationException\<close> carrying the message of the first check that does not
  hold; the record is returned when every check holds. An exception thrown inside
  a check leaves the validator.
\<close>

fun validator_get :: "(('a \<Rightarrow> exn + bool) \<times> string) list \<Rightarrow> 'a \<Rightarrow> exn + 'a" where
  "validator_get [] x = Inr x"
| "validator_get ((check, msg) # rules) x =
     (case check x of
        Inl e \<Rightarrow> Inl e
      | Inr ok \<Rightarrow> if ok then validator_get rules x else Inl (ValidationException msg))"

text \<open>
  \<^verbatim>\<open>addNewTodo\<close>, given the identifier \<open>fresh\<close> that the store assigns on
  \<^verbatim>\<open>insertOne\<close>: when validation fails nothing after it runs, so neither the
  collection nor the response changes.
\<close>

definition addNewTodo :: "ObjectId \<Rightarrow> Todo \<Rightarrow> server \<Rightarrow> (exn + unit) \<times> server" where
  "addNewTodo fresh candidate s =
     (case validator_get todo_checks candidate of
        Inl e \<Rightarrow> (Inl e, s)
      | Inr tdo \<Rightarrow>
          (let newTodo = tdo\<lparr>ident := Some fresh\<rparr> in
           (Inr (), s\<lparr>todoCollection := todoCollection s @ [newTodo],
                      res_json := Some (JsonId fresh),
                      res_status := Some CREATED\<rparr>)))"


section \<open>Sample data\<close>

text \<open>
  Two objects with the keys \<^verbatim>\<open>filterTodos\<close> reads (the second \<^verbatim>\<open>Todo\<close> interface of
  todo.ts has them).
\<close>

definition namedTodos :: "jsobj list" where
  "namedTodos =
     [[(''name'', JString ''Chris''), (''company'', JString ''UMM'')],
      [(''name'', JString ''Pat''), (''company'', JString ''IBM'')]]"

text \<open>Requests and server states in the manner of TodoControllerSpec.java.\<close>

definition no_params :: Context where
  "no_params = \<lparr>queryParamMap = Map.empty, pathParamMap = Map.empty\<rparr>"





definition with_id :: "string \<Rightarrow> Context" where
  "with_id hex = \<lparr>queryParamMap = Map.empty, pathParamMap = [''id'' \<mapsto> hex]\<rparr>"

definition fry :: Todo where
  "fry = \<lparr>ident = Some ''588935f5c668650dc77df581'', owner = Some ''Fry'', status = True,
          body = Some ''Bullfrog ranger'', category = Some ''homework''\<rparr>"

definition jerry :: "bool \<Rightarrow> string option \<Rightarrow> Todo" where
  "jerry st b = \<lparr>ident = None, owner = Some ''Jerry'', status = st, body = b,
                 category = Some ''homework''\<rparr>"

definition server_with :: "Todo list \<Rightarrow> server" where
  "server_with coll = \<lparr>todoCollection = coll, res_json = None, res_status = None\<rparr>"

section \<open>Lemmas\<close>

subsection \<open>Searching a string\<close>




subsection \<open>The filter document\<close>




subsection \<open>Looking a todo up\<close>

lemma find_first_None:
  "find_first oid coll = None \<longleftrightarrow> (\<forall>t \<in> set coll. ident t \<noteq> Some oid)"
  by (auto simp add: find_first_def find_None_iff)

lemma find_first_Some:
  "find_first oid coll = Some t \<Longrightarrow> t \<in> set coll \<and> ident t = Some oid"
  by (auto simp add: find_first_def find_Some_iff)

subsection \<open>One block of \<^verbatim>\<open>filterTodos\<close> on the heap\<close>

lemma filterBy_arrays:
  assumes "filterBy lower key ft filters h = (res, h')" and "array_at h a = Some xs"
  shows "array_at h' a = Some xs"
  using assms
  by (auto simp add: filterBy_def object_at_def array_at_def set_prop_def alloc_array_def
        Let_def nth_append
      split: option.splits jsval.splits sum.splits if_splits)

lemma filterBy_other_objects:
  assumes "filterBy lower key ft filters h = (res, h')" and "a \<noteq> filters"
  shows "object_at h' a = object_at h a"
  using assms
  by (auto simp add: filterBy_def object_at_def array_at_def set_prop_def alloc_array_def
        Let_def
      split: option.splits jsval.splits sum.splits if_splits)

lemma filterBy_unset:
  assumes "object_at h filters = Some fs" and "\<not> truthy (get_prop fs key)"
  shows "filterBy lower key ft filters h = (Inr ft, h)"
  using assms by (simp add: filterBy_def)

lemma filterTodos_unset:
  assumes "object_at h filters = Some fs"
    and "\<not> truthy (get_prop fs ''name'')" and "\<not> truthy (get_prop fs ''company'')"
  shows "filterTodos lower todos filters h = (Inr todos, h)"
  using assms by (simp add: filterTodos_def filterBy_unset)

lemma get_prop_absent: "k \<notin> fst ` set fs \<Longrightarrow> get_prop fs k = JUndefined"
  using map_of_eq_None_iff [of fs k] by (simp add: get_prop_def)

lemmas client_defs =
  run_filterTodos_def filterTodos_def filterBy_def heap_of_def object_at_def array_at_def
  get_prop_def set_prop_def alloc_array_def key_contains_def indexOf_def
  toLowerCase_def toLowerChar_def testTodos_def namedTodos_def

lemmas check_defs =
  addNewTodo_def todo_checks_def check_body_def check_owner_def check_status_def
  check_category_def CAT_REGEX_def jerry_def server_with_def


section \<open>The filter predicate builder\<close>




section \<open>The client-side refiner\<close>

text \<open>
  Claim C2. The refiner is said to filter on owner, body and category by substring,
  so that the three sample todos refined with owner \<^verbatim>\<open>i\<close> and body \<^verbatim>\<open>M\<close> give the
  one todo of Chris. \<^verbatim>\<open>filterTodos\<close> reads only the keys \<^verbatim>\<open>name\<close> and \<^verbatim>\<open>company\<close> of
  its filters: with these filters it returns all three todos, Pat's among them.
\<close>

theorem filterTodos_owner_and_body_not_applied:
  "run_filterTodos lower testTodos [(''owner'', JString ''i''), (''body'', JString ''M'')]
     = Inr testTodos
   \<and> map (\<lambda>todo. get_prop todo ''owner'') testTodos
     = [JString ''Chris'', JString ''Pat'', JString ''Jamie'']"
  by (simp add: client_defs)

text \<open>
  Claim C3. The refiner is said to truncate its result to the first N records when
  a limit N is supplied. \<^verbatim>\<open>filterTodos\<close> never reads the key \<^verbatim>\<open>limit\<close>: with a limit of
  1 it returns the three sample todos.
\<close>

theorem filterTodos_limit_not_applied:
  "run_filterTodos lower testTodos [(''limit'', JNumber 1)] = Inr testTodos
   \<and> length testTodos = 3"
  by (simp add: client_defs)

text \<open>
  Claim C4. The refiner is said to sort by the named field when it is owner,
  category or body. \<^verbatim>\<open>filterTodos\<close> never reads the key \<^verbatim>\<open>order\<close>: asked to sort by
  body it returns the sample todos in the order it received them, which is not the
  ascending order of their bodies.
\<close>

theorem filterTodos_order_not_applied:
  "run_filterTodos lower testTodos [(''order'', JString ''body'')] = Inr testTodos
   \<and> map (\<lambda>todo. get_prop todo ''body'') testTodos
     = [JString ''UMM is cool'', JString ''IBM is not cool'', JString ''Frogs, are cool'']"
  by (simp add: client_defs)

text \<open>
  Claim C9, as stated: the refiner returns a new sequence and leaves both of its
  arguments unmodified. It fails on both counts. With the filter \<^verbatim>\<open>{name: 'Chris'}\<close>
  the call overwrites \<^verbatim>\<open>filters.name\<close> with \<^verbatim>\<open>chris\<close>; and with no filter at all it
  returns the very array it was given (address 0), not a new one.
\<close>

theorem filterTodos_changes_filters_and_may_return_its_input:
  "object_at (heap_of namedTodos [(''name'', JString ''Chris'')]) 0
     = Some [(''name'', JString ''Chris'')]
   \<and> object_at
       (snd (filterTodos toLowerCase 0 0 (heap_of namedTodos [(''name'', JString ''Chris'')]))) 0
     = Some [(''name'', JString ''chris'')]
   \<and> filterTodos toLowerCase 0 0 (heap_of testTodos []) = (Inr 0, heap_of testTodos [])"
  by (simp add: client_defs)

text \<open>
  Claim C9, amended. A call of \<^verbatim>\<open>filterTodos\<close> never modifies the input sequence: it
  changes no array that exists when it is called, and no object other than the
  filters it is given. It does not always return a new sequence: when no key of
  the filters is set (each is absent, undefined, empty, false or zero) it returns
  the input array itself and changes nothing. And when the filters have only the
  keys that the caller passes (owner, status, body, category, limit, order),
  whatever their values, the call leaves the filters unmodified as well: nothing
  in the heap changes.
\<close>

theorem filterTodos_frame:
  assumes run: "filterTodos lower todos filters h = (res, h')"
  shows "(\<forall>a xs. array_at h a = Some xs \<longrightarrow> array_at h' a = Some xs)
       \<and> (\<forall>a. a \<noteq> filters \<longrightarrow> object_at h' a = object_at h a)
       \<and> (\<forall>fs. object_at h filters = Some fs \<and> (\<forall>k. \<not> truthy (get_prop fs k)) \<longrightarrow>
            res = Inr todos \<and> h' = h)
       \<and> (\<forall>fs. object_at h filters = Some fs \<and> fst ` set fs \<subseteq> set caller_keys \<longrightarrow>
            h' = h)"
proof -
  have A: "array_at h' a = Some xs" if old: "array_at h a = Some xs" for a xs
  proof -
    obtain res1 h1 where s1: "filterBy lower ''name'' todos filters h = (res1, h1)"
      by (cases "filterBy lower ''name'' todos filters h")
    from filterBy_arrays [OF s1 old] have mid: "array_at h1 a = Some xs" .
    show ?thesis
    proof (cases res1)
      case (Inl e)
      with run s1 have "h' = h1" by (simp add: filterTodos_def)
      with mid show ?thesis by simp
    next
      case (Inr r1)
      with run s1 have "filterBy lower ''company'' r1 filters h1 = (res, h')"
        by (simp add: filterTodos_def)
      from filterBy_arrays [OF this mid] show ?thesis .
    qed
  qed
  have B: "object_at h' a = object_at h a" if other: "a \<noteq> filters" for a
  proof -
    obtain res1 h1 where s1: "filterBy lower ''name'' todos filters h = (res1, h1)"
      by (cases "filterBy lower ''name'' todos filters h")
    from filterBy_other_objects [OF s1 other] have mid: "object_at h1 a = object_at h a" .
    show ?thesis
    proof (cases res1)
      case (Inl e)
      with run s1 have "h' = h1" by (simp add: filterTodos_def)
      with mid show ?thesis by simp
    next
      case (Inr r1)
      with run s1 have "filterBy lower ''company'' r1 filters h1 = (res, h')"
        by (simp add: filterTodos_def)
      from filterBy_other_objects [OF this other] mid show ?thesis by simp
    qed
  qed
  have C: "res = Inr todos \<and> h' = h"
    if "object_at h filters = Some fs \<and> (\<forall>k. \<not> truthy (get_prop fs k))" for fs
  proof -
    from that have "filterTodos lower todos filters h = (Inr todos, h)"
      by (simp add: filterTodos_unset)
    with run show ?thesis by simp
  qed
  have D: "h' = h"
    if "object_at h filters = Some fs \<and> fst ` set fs \<subseteq> set caller_keys" for fs
  proof -
    from that have "''name'' \<notin> fst ` set fs" and "''company'' \<notin> fst ` set fs"
      by (auto simp add: caller_keys_def)
    then have "get_prop fs ''name'' = JUndefined" and "get_prop fs ''company'' = JUndefined"
      by (simp_all add: get_prop_absent)
    with that have "filterTodos lower todos filters h = (Inr todos, h)"
      by (simp add: filterTodos_unset)
    with run show ?thesis by simp
  qed
  have A': "\<forall>a xs. array_at h a = Some xs \<longrightarrow> array_at h' a = Some xs"
    by (intro allI impI) (rule A)
  have B': "\<forall>a. a \<noteq> filters \<longrightarrow> object_at h' a = object_at h a"
    by (intro allI impI) (rule B)
  have C': "\<forall>fs. object_at h filters = Some fs \<and> (\<forall>k. \<not> truthy (get_prop fs k)) \<longrightarrow>
            res = Inr todos \<and> h' = h"
    by (intro allI impI) (rule C)
  have D': "\<forall>fs. object_at h filters = Some fs \<and> fst ` set fs \<subseteq> set caller_keys \<longrightarrow>
            h' = h"
    by (intro allI impI) (rule D)
  show ?thesis
    by (intro conjI A' B' C' D')
qed

text \<open>
  Three calls. With the filter \<^verbatim>\<open>{name: 'Chris'}\<close> on the two named todos the call
  allocates the array at address 1 and the input array at address 0 is as before.
  With the caller's keys set (\<^verbatim>\<open>{owner: 'i', limit: 1}\<close>) on the sample todos nothing
  changes. With the caller's keys all undefined, as in the first call the component
  makes, the input array itself is returned.
\<close>

theorem filterTodos_frame_witness:
  "filterTodos toLowerCase 0 0 (heap_of namedTodos [(''name'', JString ''Chris'')])
     = (Inr 1, \<lparr>arrays = [namedTodos, [[(''name'', JString ''Chris''), (''company'', JString ''UMM'')]]],
                objects = [[(''name'', JString ''chris'')]]\<rparr>)
   \<and> array_at (heap_of namedTodos [(''name'', JString ''Chris'')]) 0 = Some namedTodos
   \<and> array_at \<lparr>arrays = [namedTodos, [[(''name'', JString ''Chris''), (''company'', JString ''UMM'')]]],
                objects = [[(''name'', JString ''chris'')]]\<rparr> 0 = Some namedTodos
   \<and> object_at (heap_of testTodos [(''owner'', JString ''i''), (''limit'', JNumber 1)]) 0
       = Some [(''owner'', JString ''i''), (''limit'', JNumber 1)]
   \<and> fst ` set [(''owner'', JString ''i''), (''limit'', JNumber 1)] \<subseteq> set caller_keys
   \<and> snd (filterTodos toLowerCase 0 0
            (heap_of testTodos [(''owner'', JString ''i''), (''limit'', JNumber 1)]))
       = heap_of testTodos [(''owner'', JString ''i''), (''limit'', JNumber 1)]
   \<and> object_at (heap_of testTodos [(''owner'', JUndefined), (''limit'', JUndefined)]) 0
       = Some [(''owner'', JUndefined), (''limit'', JUndefined)]
   \<and> (\<forall>k. \<not> truthy (get_prop [(''owner'', JUndefined), (''limit'', JUndefined)] k))
   \<and> filterTodos toLowerCase 0 0
        (heap_of testTodos [(''owner'', JUndefined), (''limit'', JUndefined)])
       = (Inr 0, heap_of testTodos [(''owner'', JUndefined), (''limit'', JUndefined)])"
proof -
  let ?h1 = "heap_of namedTodos [(''name'', JString ''Chris'')]"
  let ?h1' = "\<lparr>arrays = [namedTodos, [[(''name'', JString ''Chris''), (''company'', JString ''UMM'')]]],
                objects = [[(''name'', JString ''chris'')]]\<rparr>"
  have run1: "filterTodos toLowerCase 0 0 ?h1 = (Inr 1, ?h1')"
    by (simp add: client_defs)
  have arr1: "array_at ?h1 0 = Some namedTodos"
    by (simp add: heap_of_def array_at_def)
  note kept1 = filterTodos_frame [OF run1, THEN conjunct1, THEN spec, THEN spec, THEN mp, OF arr1]
  let ?fs2 = "[(''owner'', JString ''i''), (''limit'', JNumber 1)]"
  let ?h2 = "heap_of testTodos ?fs2"
  have run2: "filterTodos toLowerCase 0 0 ?h2
      = (fst (filterTodos toLowerCase 0 0 ?h2), snd (filterTodos toLowerCase 0 0 ?h2))"
    by simp
  have obj2: "object_at ?h2 0 = Some ?fs2"
    by (simp add: heap_of_def object_at_def)
  have keys2: "fst ` set ?fs2 \<subseteq> set caller_keys"
    by (simp add: caller_keys_def)
  note same2 = filterTodos_frame [OF run2, THEN conjunct2, THEN conjunct2, THEN conjunct2,
      THEN spec, THEN mp, OF conjI, OF obj2 keys2]
  let ?fs3 = "[(''owner'', JUndefined), (''limit'', JUndefined)]"
  let ?h3 = "heap_of testTodos ?fs3"
  have run3: "filterTodos toLowerCase 0 0 ?h3
      = (fst (filterTodos toLowerCase 0 0 ?h3), snd (filterTodos toLowerCase 0 0 ?h3))"
    by simp
  have obj3: "object_at ?h3 0 = Some ?fs3"
    by (simp add: heap_of_def object_at_def)
  have unset3: "\<forall>k. \<not> truthy (get_prop ?fs3 k)"
    by (simp add: get_prop_def)
  note input3 = filterTodos_frame [OF run3, THEN conjunct2, THEN conjunct2, THEN conjunct1,
      THEN spec, THEN mp, OF conjI, OF obj3 unset3]
  from input3 have ret3: "filterTodos toLowerCase 0 0 ?h3 = (Inr 0, ?h3)"
    by (simp add: prod_eq_iff)
  from run1 arr1 kept1 obj2 keys2 same2 obj3 unset3 ret3 show ?thesis
    by simp
qed

section \<open>Inserting a todo\<close>

text \<open>
  Claim C5, as stated: an insert whose body has length 1, or length greater than
  300, fails validation before the record reaches the store. The server's check of
  the body is only that it is not empty: a todo whose body is the one character
  \<^verbatim>\<open>x\<close> is validated, stored and answered with \<^verbatim>\<open>CREATED\<close>.
\<close>

theorem addNewTodo_accepts_one_character_body:
  "addNewTodo ''65f0a1b2c3d4e5f601234567'' (jerry True (Some ''x'')) (server_with [])
     = (Inr (),
        \<lparr>todoCollection =
           [\<lparr>ident = Some ''65f0a1b2c3d4e5f601234567'', owner = Some ''Jerry'',
             status = True, body = Some ''x'', category = Some ''homework''\<rparr>],
         res_json = Some (JsonId ''65f0a1b2c3d4e5f601234567''),
         res_status = Some CREATED\<rparr>)"
  by (simp add: check_defs)

text \<open>
  Claim C5, amended. On the server, an insert whose body is missing or empty fails
  with the validation error of the body check and leaves the store as it was, and
  a todo that passes the other checks is inserted whatever the length of its
  non-empty body. The bounds 2 and 300 are those of the client's form: its body
  control is invalid for a body of length 1 and for one longer than 300.
\<close>

theorem body_length_checks:
  "((body t = None \<or> body t = Some []) \<longrightarrow>
      addNewTodo fresh t s = (Inl (ValidationException ''Todo must have a non-empty body''), s))
   \<and> ((length v = 1 \<or> length v > 300) \<longrightarrow> \<not> body_valid lower v)
   \<and> (body t' = Some b \<and> b \<noteq> [] \<and> owner t' = Some ow \<and> ow \<noteq> [] \<and> status t' \<and>
      category t' = Some c \<and> c \<in> set CAT_REGEX \<longrightarrow>
        addNewTodo fresh t' s =
          (Inr (), s\<lparr>todoCollection := todoCollection s @ [t'\<lparr>ident := Some fresh\<rparr>],
                     res_json := Some (JsonId fresh), res_status := Some CREATED\<rparr>))"
proof (intro conjI impI)
  assume "body t = None \<or> body t = Some []"
  then show "addNewTodo fresh t s =
      (Inl (ValidationException ''Todo must have a non-empty body''), s)"
    by (auto simp add: addNewTodo_def todo_checks_def check_body_def)
next
  assume "length v = 1 \<or> length v > 300"
  then show "\<not> body_valid lower v"
    by (auto simp add: body_valid_def body_errors_def)
next
  assume "body t' = Some b \<and> b \<noteq> [] \<and> owner t' = Some ow \<and> ow \<noteq> [] \<and> status t' \<and>
      category t' = Some c \<and> c \<in> set CAT_REGEX"
  then show "addNewTodo fresh t' s =
          (Inr (), s\<lparr>todoCollection := todoCollection s @ [t'\<lparr>ident := Some fresh\<rparr>],
                     res_json := Some (JsonId fresh), res_status := Some CREATED\<rparr>)"
    by (simp add: addNewTodo_def todo_checks_def check_body_def check_owner_def
          check_status_def check_category_def)
qed

text \<open>
  A todo without a body, the form value \<^verbatim>\<open>x\<close>, and a todo whose body has 301
  characters.
\<close>

theorem body_length_checks_witness:
  "body (jerry True None) = None
   \<and> addNewTodo ''65f0a1b2c3d4e5f601234567'' (jerry True None) (server_with [fry])
       = (Inl (ValidationException ''Todo must have a non-empty body''), server_with [fry])
   \<and> length ''x'' = 1
   \<and> \<not> body_valid toLowerCase ''x''
   \<and> body (jerry True (Some (replicate 301 CHR ''x''))) = Some (replicate 301 CHR ''x'')
   \<and> replicate 301 CHR ''x'' \<noteq> []
   \<and> ''homework'' \<in> set CAT_REGEX
   \<and> fst (addNewTodo ''65f0a1b2c3d4e5f601234567'' (jerry True (Some (replicate 301 CHR ''x'')))
        (server_with [fry])) = Inr ()"
  using body_length_checks [of "jerry True None" "''65f0a1b2c3d4e5f601234567''"
      "server_with [fry]" "''x''" toLowerCase "jerry True (Some (replicate 301 CHR ''x''))"
      "replicate 301 CHR ''x''" "''Jerry''" "''homework''"]
  by (simp add: jerry_def CAT_REGEX_def)

text \<open>
  Claim C6. A todo whose status is present passes the status check whatever its
  value, so that a todo valid in its other fields is inserted with status false.
  The check is \<^verbatim>\<open>tdo -> tdo.status\<close>, the value itself: with status false the insert
  fails on the status check, in every state of the server.
\<close>

theorem addNewTodo_rejects_false_status:
  "addNewTodo fresh (jerry False (Some ''cool stuff'')) s
     = (Inl (ValidationException ''Todo must have a non-empty status''), s)"
  by (simp add: check_defs)

section \<open>Looking up and deleting a todo\<close>

text \<open>
  Claim C7. For a lookup by the identifier \<open>hex\<close>: when \<open>hex\<close> is not a legal object
  identifier, \<^verbatim>\<open>getTodo\<close> fails with the bad-request response and its exact message;
  when it is legal and no todo of the collection has it, with the not-found
  response and its exact message; otherwise it answers with one todo of the
  collection that has this identifier, and the status \<^verbatim>\<open>OK\<close>. A failed lookup leaves
  the response untouched.
\<close>

theorem getTodo_outcomes:
  assumes "pathParam ctx ''id'' = Some hex"
  shows "(\<not> ObjectId_isValid hex \<longrightarrow>
            getTodo ctx s =
              (Inl (BadRequestResponse
                 ''The requested todo id wasn't a legal Mongo Object ID.''), s))
       \<and> (ObjectId_isValid hex \<and>
            (\<forall>t \<in> set (todoCollection s). ident t \<noteq> Some (toLowerCase hex)) \<longrightarrow>
            getTodo ctx s = (Inl (NotFoundResponse ''The requested todo was not found''), s))
       \<and> (ObjectId_isValid hex \<and>
            (\<exists>t \<in> set (todoCollection s). ident t = Some (toLowerCase hex)) \<longrightarrow>
            (\<exists>todo. todo \<in> set (todoCollection s) \<and> ident todo = Some (toLowerCase hex) \<and>
               getTodo ctx s =
                 (Inr (), s\<lparr>res_json := Some (JsonTodo todo), res_status := Some OK\<rparr>)))"
proof (intro conjI impI)
  assume "\<not> ObjectId_isValid hex"
  with assms show "getTodo ctx s =
      (Inl (BadRequestResponse ''The requested todo id wasn't a legal Mongo Object ID.''), s)"
    by (simp add: getTodo_def new_ObjectId_def)
next
  assume a: "ObjectId_isValid hex \<and>
    (\<forall>t \<in> set (todoCollection s). ident t \<noteq> Some (toLowerCase hex))"
  then have "find_first (toLowerCase hex) (todoCollection s) = None"
    by (simp add: find_first_None)
  with a assms
  show "getTodo ctx s = (Inl (NotFoundResponse ''The requested todo was not found''), s)"
    by (simp add: getTodo_def new_ObjectId_def)
next
  assume a: "ObjectId_isValid hex \<and>
    (\<exists>t \<in> set (todoCollection s). ident t = Some (toLowerCase hex))"
  then have "find_first (toLowerCase hex) (todoCollection s) \<noteq> None"
    by (simp add: find_first_None)
  then obtain todo where f: "find_first (toLowerCase hex) (todoCollection s) = Some todo"
    by blast
  from f have "todo \<in> set (todoCollection s) \<and> ident todo = Some (toLowerCase hex)"
    by (rule find_first_Some)
  moreover from a assms f
  have "getTodo ctx s = (Inr (), s\<lparr>res_json := Some (JsonTodo todo), res_status := Some OK\<rparr>)"
    by (simp add: getTodo_def new_ObjectId_def)
  ultimately
  show "\<exists>todo. todo \<in> set (todoCollection s) \<and> ident todo = Some (toLowerCase hex) \<and>
          getTodo ctx s =
            (Inr (), s\<lparr>res_json := Some (JsonTodo todo), res_status := Some OK\<rparr>)"
    by blast
qed

text \<open>
  The three lookups of the controller's tests: the identifier \<^verbatim>\<open>bad\<close>, a legal
  identifier on an empty collection, and the identifier of a stored todo.
\<close>

theorem getTodo_outcomes_witness:
  "pathParam (with_id ''bad'') ''id'' = Some ''bad''
   \<and> \<not> ObjectId_isValid ''bad''
   \<and> getTodo (with_id ''bad'') (server_with [fry])
       = (Inl (BadRequestResponse ''The requested todo id wasn't a legal Mongo Object ID.''),
          server_with [fry])
   \<and> pathParam (with_id ''588935f5c668650dc77df581'') ''id'' = Some ''588935f5c668650dc77df581''
   \<and> ObjectId_isValid ''588935f5c668650dc77df581''
   \<and> todoCollection (server_with []) = []
   \<and> getTodo (with_id ''588935f5c668650dc77df581'') (server_with [])
       = (Inl (NotFoundResponse ''The requested todo was not found''), server_with [])
   \<and> fry \<in> set (todoCollection (server_with [fry]))
   \<and> ident fry = Some (toLowerCase ''588935f5c668650dc77df581'')
   \<and> getTodo (with_id ''588935f5c668650dc77df581'') (server_with [fry])
       = (Inr (), (server_with [fry])\<lparr>res_json := Some (JsonTodo fry), res_status := Some OK\<rparr>)"
proof -
  have p1: "pathParam (with_id ''bad'') ''id'' = Some ''bad''"
    by (simp add: pathParam_def with_id_def)
  have p2: "pathParam (with_id ''588935f5c668650dc77df581'') ''id''
              = Some ''588935f5c668650dc77df581''"
    by (simp add: pathParam_def with_id_def)
  have bad: "\<not> ObjectId_isValid ''bad''"
    by (simp add: ObjectId_isValid_def)
  have good: "ObjectId_isValid ''588935f5c668650dc77df581''"
    by (simp add: ObjectId_isValid_def isHexDigit_def)
  have low: "toLowerCase ''588935f5c668650dc77df581'' = ''588935f5c668650dc77df581''"
    by (simp add: toLowerCase_def toLowerChar_def)
  have absent: "\<forall>t \<in> set (todoCollection (server_with [])).
         ident t \<noteq> Some (toLowerCase ''588935f5c668650dc77df581'')"
    by (simp add: server_with_def)
  have present: "\<exists>t \<in> set (todoCollection (server_with [fry])).
         ident t = Some (toLowerCase ''588935f5c668650dc77df581'')"
    by (simp add: server_with_def fry_def low)
  have one: "todo \<in> set (todoCollection (server_with [fry])) \<Longrightarrow> todo = fry" for todo
    by (simp add: server_with_def)
  from getTodo_outcomes [OF p1, of "server_with [fry]"] bad
  have r1: "getTodo (with_id ''bad'') (server_with [fry])
       = (Inl (BadRequestResponse ''The requested todo id wasn't a legal Mongo Object ID.''),
          server_with [fry])"
    by simp
  from getTodo_outcomes [OF p2, of "server_with []"] good absent
  have r2: "getTodo (with_id ''588935f5c668650dc77df581'') (server_with [])
       = (Inl (NotFoundResponse ''The requested todo was not found''), server_with [])"
    by simp
  from getTodo_outcomes [OF p2, of "server_with [fry]"] good present
  obtain todo where "todo \<in> set (todoCollection (server_with [fry]))"
    and "getTodo (with_id ''588935f5c668650dc77df581'') (server_with [fry])
       = (Inr (), (server_with [fry])\<lparr>res_json := Some (JsonTodo todo), res_status := Some OK\<rparr>)"
    by blast
  with one have r3: "getTodo (with_id ''588935f5c668650dc77df581'') (server_with [fry])
       = (Inr (), (server_with [fry])\<lparr>res_json := Some (JsonTodo fry), res_status := Some OK\<rparr>)"
    by simp
  have empty: "todoCollection (server_with []) = []"
    by (simp add: server_with_def)
  have stored: "fry \<in> set (todoCollection (server_with [fry]))"
    "ident fry = Some (toLowerCase ''588935f5c668650dc77df581'')"
    by (simp_all add: server_with_def fry_def low)
  from p1 p2 bad good empty stored r1 r2 r3 show ?thesis
    by simp
qed

text \<open>
  Claim C10. For an identifier that cannot be parsed into an object identifier,
  \<^verbatim>\<open>deleteTodo\<close> fails with neither the not-found nor the bad-request response: the
  \<^verbatim>\<open>IllegalArgumentException\<close> of the constructor leaves the handler, and the
  collection and the response stay as they were; \<^verbatim>\<open>getTodo\<close> on the same request
  catches it and fails with the bad-request response.
\<close>

theorem deleteTodo_illegal_id_propagates:
  assumes "pathParam ctx ''id'' = Some hex" and "\<not> ObjectId_isValid hex"
  shows "deleteTodo ctx s = (Inl IllegalArgumentException, s)
       \<and> (\<forall>m. fst (deleteTodo ctx s) \<noteq> Inl (NotFoundResponse m)
              \<and> fst (deleteTodo ctx s) \<noteq> Inl (BadRequestResponse m))
       \<and> getTodo ctx s =
           (Inl (BadRequestResponse
              ''The requested todo id wasn't a legal Mongo Object ID.''), s)"
  using assms by (simp add: deleteTodo_def getTodo_def new_ObjectId_def)

text \<open>The identifier \<^verbatim>\<open>bad\<close> of the controller's tests, with one todo stored.\<close>

theorem deleteTodo_illegal_id_propagates_witness:
  "pathParam (with_id ''bad'') ''id'' = Some ''bad''
   \<and> \<not> ObjectId_isValid ''bad''
   \<and> deleteTodo (with_id ''bad'') (server_with [fry])
       = (Inl IllegalArgumentException, server_with [fry])
   \<and> getTodo (with_id ''bad'') (server_with [fry])
       = (Inl (BadRequestResponse ''The requested todo id wasn't a legal Mongo Object ID.''),
          server_with [fry])"
proof -
  have p: "pathParam (with_id ''bad'') ''id'' = Some ''bad''"
    by (simp add: pathParam_def with_id_def)
  have bad: "\<not> ObjectId_isValid ''bad''"
    by (simp add: ObjectId_isValid_def)
  from deleteTodo_illegal_id_propagates [OF p bad, of "server_with [fry]"] p bad
  show ?thesis by simp
qed

section \<open>The sort order resolver\<close>

text \<open>
  Claim C8, as stated: a list request without a sort field is sorted by owner. The
  default field of \<^verbatim>\<open>constructSortingOrder\<close> is the literal \<^verbatim>\<open>name\<close>, as its comment
  says; a request without parameters is sorted by \<^verbatim>\<open>name\<close>, not by \<^verbatim>\<open>owner\<close>.
\<close>

theorem constructSortingOrder_default_is_not_owner:
  "constructSortingOrder no_params = ascending ''name''
   \<and> constructSortingOrder no_params \<noteq> ascending OWNER_KEY"
  by (simp add: constructSortingOrder_def queryParam_def requireNonNullElse_def
        no_params_def OWNER_KEY_def)

text \<open>
  Claim C8, amended. For a list request that supplies no sort field, the order is
  by the field named \<^verbatim>\<open>name\<close>: descending when the direction is \<^verbatim>\<open>desc\<close>, ascending
  otherwise, and so ascending when no direction is supplied.
\<close>

theorem constructSortingOrder_default_field:
  assumes "queryParam ctx ''sortby'' = None"
  shows "constructSortingOrder ctx =
           (if queryParam ctx ''sortorder'' = Some ''desc''
            then descending ''name'' else ascending ''name'')
       \<and> (queryParam ctx ''sortorder'' = None \<longrightarrow>
            constructSortingOrder ctx = ascending ''name'')"
  using assms
  by (auto simp add: constructSortingOrder_def requireNonNullElse_def split: option.splits)

text \<open>A request without any parameter.\<close>

theorem constructSortingOrder_default_field_witness:
  "queryParam no_params ''sortby'' = None
   \<and> queryParam no_params ''sortorder'' = None
   \<and> constructSortingOrder no_params = ascending ''name''"
proof -
  have q: "queryParam no_params ''sortby'' = None"
    by (simp add: queryParam_def no_params_def)
  have o: "queryParam no_params ''sortorder'' = None"
    by (simp add: queryParam_def no_params_def)
  from constructSortingOrder_default_field [OF q] q o show ?thesis
    by simp
qed

end
